theory Spec2Isabelle
  imports Main
begin

section \<open>Python values, dictionaries and exceptions\<close>

text \<open>
  The program is a Python script (\<^verbatim>\<open>proj2_nps.py\<close>). Its functions are translated one by
  one. A Python function that can raise returns a sum here: \<open>Inl\<close> is the exception that
  leaves the function, \<open>Inr\<close> the value it returns.
\<close>

datatype py_error =
    AttributeError
  | KeyError
  | TypeError
  | FileNotFoundError
  | UnicodeDecodeError
  | JSONDecodeError
  | RequestException
  | EOFError

text \<open>
  A Python \<^verbatim>\<open>dict\<close> keeps its keys in insertion order: it is an association list, read
  with \<open>map_of\<close> (the first pair of a key counts). \<^verbatim>\<open>d[k] = v\<close> replaces the value of a
  key that is there and appends a new key at the end.
\<close>

type_synonym ('k, 'v) dict = "('k \<times> 'v) list"

definition dict_in :: "'k \<Rightarrow> ('k, 'v) dict \<Rightarrow> bool" where
  \<comment> \<open>\<^verbatim>\<open>k in d\<close>, \<^verbatim>\<open>k in d.keys()\<close>\<close>
  "dict_in k d = (case map_of d k of None \<Rightarrow> False | Some _ \<Rightarrow> True)"

definition dict_get :: "('k, 'v) dict \<Rightarrow> 'k \<Rightarrow> py_error + 'v" where
  \<comment> \<open>\<^verbatim>\<open>d[k]\<close>\<close>
  "dict_get d k = (case map_of d k of None \<Rightarrow> Inl KeyError | Some v \<Rightarrow> Inr v)"

fun dict_set :: "('k, 'v) dict \<Rightarrow> 'k \<Rightarrow> 'v \<Rightarrow> ('k, 'v) dict" where
  \<comment> \<open>\<^verbatim>\<open>d[k] = v\<close>, \<^verbatim>\<open>d.update({k: v})\<close>\<close>
  "dict_set [] k v = [(k, v)]"
| "dict_set ((k', v') # d) k v =
     (if k' = k then (k, v) # d else (k', v') # dict_set d k v)"

text \<open>
  The values the program handles without knowing their type: what \<^verbatim>\<open>json.loads\<close> and
  \<^verbatim>\<open>response.json()\<close> return, and so the cache. Numbers are integers here; the program
  never looks at a number.
\<close>

datatype pyval =
    PyNone
  | PyBool bool
  | PyInt int
  | PyStr string
  | PyList "pyval list"
  | PyDict "(string \<times> pyval) list"

fun subscript :: "pyval \<Rightarrow> string \<Rightarrow> py_error + pyval" where
  \<comment> \<open>\<^verbatim>\<open>x[k]\<close> with a string key \<open>k\<close>: only a dict can be read this way\<close>
  "subscript (PyDict d) k = dict_get d k"
| "subscript _ k = Inl TypeError"

subsection \<open>Strings\<close>

text \<open>
  Strings are lists of 8-bit characters; \<^verbatim>\<open>str.lower\<close> and \<^verbatim>\<open>str.strip\<close> are modelled on
  ASCII, where they change the letters \<^verbatim>\<open>A\<close> to \<^verbatim>\<open>Z\<close> and remove the white space
  characters 9 to 13, 28 to 31 and 32.
\<close>

definition char_lower :: "char \<Rightarrow> char" where
  "char_lower c =
     (let n = (of_char c :: nat) in if 65 \<le> n \<and> n \<le> 90 then char_of (n + 32) else c)"

definition lower :: "string \<Rightarrow> string" where
  "lower s = map char_lower s"

definition isspace :: "char \<Rightarrow> bool" where
  "isspace c =
     (let n = (of_char c :: nat) in (9 \<le> n \<and> n \<le> 13) \<or> (28 \<le> n \<and> n \<le> 32))"

definition strip :: "string \<Rightarrow> string" where
  "strip s = rev (dropWhile isspace (rev (dropWhile isspace s)))"

definition digit_char :: "nat \<Rightarrow> char" where
  "digit_char d = char_of (48 + d)"

function str_nat :: "nat \<Rightarrow> string" where
  \<comment> \<open>\<^verbatim>\<open>str(n)\<close> of a non-negative integer\<close>
  "str_nat n = (if n < 10 then [digit_char n] else str_nat (n div 10) @ [digit_char (n mod 10)])"
  by pat_completeness auto
termination
  by (relation "measure id") auto

declare str_nat.simps [simp del]

section \<open>The world outside the program\<close>

text \<open>
  A file holds text, or bytes that \<^verbatim>\<open>read()\<close> cannot decode. Opening a file for writing
  replaces it by the text written. File permissions are not modelled.
\<close>

datatype disk_file = Text string | Undecodable

record request =
  url :: string
  params :: "(string \<times> string) list"

datatype out = Line string | Prompt string

text \<open>
  The state the program changes: the files, the HTTP requests sent so far (oldest first),
  what was written to the terminal, and the global variable \<^verbatim>\<open>CACHE_DICT\<close>.
\<close>

record world =
  files :: "string \<rightharpoonup> disk_file"
  sent :: "request list"
  stdout :: "out list"
  CACHE_DICT :: pyval

text \<open>
  The libraries and the network are parameters. The answer to a request may depend on
  the requests sent before it, so the same URL can answer differently later.
\<close>

record anchor =
  a_text :: string
  a_href :: "string option"

record hero =
  Hero_title :: "string option"
  Hero_designation :: "string option"

record contact =
  addressLocality :: "string option"
  addressRegion :: "string option"
  postalCode :: "string option"
  telephone :: "string option"

record site_page =
  Hero_titleContainer :: "hero option"
  ParkFooter_contact :: "contact option"

record env =
  API_KEY :: string
  requests_get :: "request list \<Rightarrow> request \<Rightarrow> py_error + string"
  json_loads :: "string \<Rightarrow> py_error + pyval"
  json_dumps :: "pyval \<Rightarrow> string"
  soup_states :: "string \<Rightarrow> anchor option list option"
  soup_parks :: "string \<Rightarrow> anchor option list option"
  soup_site :: "string \<Rightarrow> site_page"

definition print :: "string \<Rightarrow> world \<Rightarrow> world" where
  "print s w = w\<lparr>stdout := stdout w @ [Line s]\<rparr>"

definition http_get :: "env \<Rightarrow> request \<Rightarrow> world \<Rightarrow> (py_error + string) \<times> world" where
  \<comment> \<open>\<^verbatim>\<open>requests.get(...).text\<close>: the request is sent whether or not an answer comes\<close>
  "http_get E r w = (requests_get E (sent w) r, w\<lparr>sent := sent w @ [r]\<rparr>)"

definition plain :: "string \<Rightarrow> request" where
  "plain u = \<lparr>url = u, params = []\<rparr>"

section \<open>The response cache\<close>

definition CACHE_FILE_NAME :: string where
  "CACHE_FILE_NAME = ''cache.json''"

definition read_file :: "world \<Rightarrow> string \<Rightarrow> py_error + string" where
  \<comment> \<open>\<^verbatim>\<open>open(name, 'r')\<close> followed by \<^verbatim>\<open>read()\<close>\<close>
  "read_file w n =
     (case files w n of
        None \<Rightarrow> Inl FileNotFoundError
      | Some Undecodable \<Rightarrow> Inl UnicodeDecodeError
      | Some (Text s) \<Rightarrow> Inr s)"

definition write_file :: "string \<Rightarrow> string \<Rightarrow> world \<Rightarrow> world" where
  \<comment> \<open>\<^verbatim>\<open>open(name, 'w')\<close>, \<^verbatim>\<open>write(s)\<close>, \<^verbatim>\<open>close()\<close>\<close>
  "write_file n s w = w\<lparr>files := (files w)(n \<mapsto> Text s)\<rparr>"

definition load_cache_try :: "env \<Rightarrow> world \<Rightarrow> py_error + pyval" where
  \<comment> \<open>the body of the \<^verbatim>\<open>try\<close> of \<^verbatim>\<open>load_cache\<close>\<close>
  "load_cache_try E w =
     (case read_file w CACHE_FILE_NAME of
        Inl e \<Rightarrow> Inl e
      | Inr cache_file_contents \<Rightarrow> json_loads E cache_file_contents)"

definition load_cache :: "env \<Rightarrow> world \<Rightarrow> py_error + pyval" where
  \<comment> \<open>the bare \<^verbatim>\<open>except\<close> catches whatever the body raises\<close>
  "load_cache E w =
     (case load_cache_try E w of
        Inl e \<Rightarrow> Inr (PyDict [])
      | Inr cache \<Rightarrow> Inr cache)"

definition save_cache :: "env \<Rightarrow> pyval \<Rightarrow> world \<Rightarrow> world" where
  "save_cache E cache w = write_file CACHE_FILE_NAME (json_dumps E cache) w"

definition make_url_request_using_cache ::
  "env \<Rightarrow> string \<Rightarrow> pyval \<Rightarrow> world \<Rightarrow> (py_error + pyval) \<times> pyval \<times> world" where
  \<comment> \<open>returns the result, the dict \<^verbatim>\<open>cache\<close> as the call leaves it, and the world\<close>
  "make_url_request_using_cache E u cache w =
     (case cache of
        PyDict d \<Rightarrow>
          if dict_in u d then
            (dict_get d u, cache, print ''Using cache'' w)
          else
            (case http_get E (plain u) (print ''Fetching'' w) of
               (Inl e, w') \<Rightarrow> (Inl e, cache, w')
             | (Inr response_text, w') \<Rightarrow>
                 let d' = dict_set d u (PyStr response_text) in
                 (dict_get d' u, PyDict d', save_cache E (PyDict d') w'))
      | _ \<Rightarrow> (Inl AttributeError, cache, w))"

section \<open>National sites\<close>

record NationalSite =
  category :: string
  name :: string
  address :: string
  zipcode :: string
  phone :: string

definition info :: "NationalSite \<Rightarrow> string" where
  "info self = name self @ '' ('' @ category self @ ''): '' @ address self @ '' '' @ zipcode self"

subsection \<open>The index of the states\<close>

text \<open>
  \<^verbatim>\<open>soup_states\<close> stands for the HTML parser on the index page: \<open>None\<close> when the page has
  no \<^verbatim>\<open>ul\<close> of the class looked for, else its \<^verbatim>\<open>li\<close> children, each given by the first
  \<^verbatim>\<open>a\<close> in it (\<open>None\<close> when it has none), with its text and its \<^verbatim>\<open>href\<close> if it has one.
\<close>

fun state_dict_loop ::
  "string \<Rightarrow> anchor option list \<Rightarrow> (string, string) dict \<Rightarrow> py_error + (string, string) dict" where
  "state_dict_loop state_url [] state_dict = Inr state_dict"
| "state_dict_loop state_url (states # state_list) state_dict =
     (case states of
        None \<Rightarrow> Inl AttributeError
      | Some state_tag \<Rightarrow>
          (case a_href state_tag of
             None \<Rightarrow> Inl KeyError
           | Some state_link \<Rightarrow>
               let state_name = a_text state_tag;
                   state_details = state_url @ state_link
               in if \<not> dict_in state_name state_dict
                  then state_dict_loop state_url state_list
                         (dict_set state_dict (lower state_name) state_details)
                  else state_dict_loop state_url state_list state_dict))"

definition build_state_url_dict :: "env \<Rightarrow> world \<Rightarrow> (py_error + (string, string) dict) \<times> world" where
  "build_state_url_dict E w =
     (let state_url = ''https://www.nps.gov'' in
      case http_get E (plain state_url) w of
        (Inl e, w') \<Rightarrow> (Inl e, w')
      | (Inr response_text, w') \<Rightarrow>
          (case soup_states E response_text of
             None \<Rightarrow> (Inl AttributeError, w')
           | Some state_list \<Rightarrow> (state_dict_loop state_url state_list [], w')))"

subsection \<open>One site\<close>

definition text_strip :: "string option \<Rightarrow> py_error + string" where
  \<comment> \<open>\<^verbatim>\<open>x.find(...).text.strip()\<close>: \<^verbatim>\<open>find\<close> gives \<^verbatim>\<open>None\<close> when nothing matches\<close>
  "text_strip x = (case x of None \<Rightarrow> Inl AttributeError | Some t \<Rightarrow> Inr (strip t))"

definition site_from_soup :: "site_page \<Rightarrow> py_error + NationalSite" where
  \<comment> \<open>\<^verbatim>\<open>get_site_instance\<close> from the line after \<^verbatim>\<open>soup = BeautifulSoup(...)\<close> to its end\<close>
  "site_from_soup soup =
     (case Hero_titleContainer soup of
        None \<Rightarrow> Inl AttributeError
      | Some header \<Rightarrow>
     (case text_strip (Hero_title header) of
        Inl e \<Rightarrow> Inl e
      | Inr name0 \<Rightarrow>
     (case text_strip (Hero_designation header) of
        Inl e \<Rightarrow> Inl e
      | Inr category0 \<Rightarrow>
     (case ParkFooter_contact soup of
        None \<Rightarrow> Inl AttributeError
      | Some footer \<Rightarrow>
     (case text_strip (addressLocality footer) of
        Inl e \<Rightarrow> Inl e
      | Inr city \<Rightarrow>
     (case text_strip (addressRegion footer) of
        Inl e \<Rightarrow> Inl e
      | Inr state \<Rightarrow>
     (case text_strip (postalCode footer) of
        Inl e \<Rightarrow> Inl e
      | Inr zipcode0 \<Rightarrow>
     (case text_strip (telephone footer) of
        Inl e \<Rightarrow> Inl e
      | Inr phone0 \<Rightarrow>
          let category1 = (if category0 \<noteq> [] then category0 else ''no category'');
              address1 = (if PyStr city \<noteq> PyNone \<and> PyStr state \<noteq> PyNone
                          then city @ '', '' @ state else []);
              zipcode1 = (if PyStr zipcode0 \<noteq> PyNone then zipcode0 else []);
              phone1 = (if PyStr phone0 \<noteq> PyNone then phone0 else [])
          in Inr \<lparr>category = category1, name = name0, address = address1,
                   zipcode = zipcode1, phone = phone1\<rparr>))))))))"

definition get_site_instance :: "env \<Rightarrow> string \<Rightarrow> world \<Rightarrow> (py_error + NationalSite) \<times> world" where
  \<comment> \<open>the argument \<^verbatim>\<open>cache\<close> of the fetch is the object \<^verbatim>\<open>CACHE_DICT\<close> names, so what the
      fetch stores is stored in \<^verbatim>\<open>CACHE_DICT\<close>\<close>
  "get_site_instance E site_url w =
     (case make_url_request_using_cache E site_url (CACHE_DICT w) w of
        (r, cache', w1) \<Rightarrow>
          let w2 = w1\<lparr>CACHE_DICT := cache'\<rparr> in
          (case r of
             Inl e \<Rightarrow> (Inl e, w2)
           | Inr (PyStr t) \<Rightarrow> (site_from_soup (soup_site E t), w2)
           | Inr _ \<Rightarrow> (Inl TypeError, w2)))"

subsection \<open>The sites of a state\<close>

fun parks_loop ::
  "env \<Rightarrow> anchor option list \<Rightarrow> NationalSite list \<Rightarrow> world
     \<Rightarrow> (py_error + NationalSite list) \<times> world" where
  "parks_loop E [] park_list w = (Inr park_list, w)"
| "parks_loop E (park # park_find) park_list w =
     (case park of
        None \<Rightarrow> (Inl TypeError, w)
      | Some a \<Rightarrow>
          (case a_href a of
             None \<Rightarrow> (Inl KeyError, w)
           | Some parameter \<Rightarrow>
               (case get_site_instance E (''https://www.nps.gov'' @ parameter) w of
                  (Inl e, w') \<Rightarrow> (Inl e, w')
                | (Inr site_instance, w') \<Rightarrow>
                    parks_loop E park_find (park_list @ [site_instance]) w')))"

definition get_sites_for_state ::
  "env \<Rightarrow> string \<Rightarrow> world \<Rightarrow> (py_error + NationalSite list) \<times> world" where
  "get_sites_for_state E state_url w =
     (case http_get E (plain state_url) w of
        (Inl e, w') \<Rightarrow> (Inl e, w')
      | (Inr response_text, w') \<Rightarrow>
          (case soup_parks E (strip response_text) of
             None \<Rightarrow> (Inl AttributeError, w')
           | Some park_find \<Rightarrow> parks_loop E park_find [] w'))"

subsection \<open>Nearby places\<close>

definition nearby_request :: "env \<Rightarrow> NationalSite \<Rightarrow> request" where
  "nearby_request E site_object =
     \<lparr>url = ''http://www.mapquestapi.com/search/v2/radius'',
      params = [(''origin'', zipcode site_object), (''radius'', ''10''),
                (''maxMatches'', ''10''), (''ambiguities'', ''ignore''),
                (''outFormat'', ''json''), (''key'', API_KEY E)]\<rparr>"

definition get_nearby_places :: "env \<Rightarrow> NationalSite \<Rightarrow> world \<Rightarrow> (py_error + pyval) \<times> world" where
  "get_nearby_places E site_object w =
     (case http_get E (nearby_request E site_object) w of
        (Inl e, w') \<Rightarrow> (Inl e, w')
      | (Inr response_text, w') \<Rightarrow> (json_loads E response_text, w'))"

section \<open>The interactive session\<close>

subsection \<open>Printing the places\<close>

fun iterate :: "pyval \<Rightarrow> py_error + pyval list" where
  \<comment> \<open>what a \<^verbatim>\<open>for\<close> loop runs over: a dict gives its keys, a string its characters\<close>
  "iterate (PyList xs) = Inr xs"
| "iterate (PyDict d) = Inr (map (\<lambda>kv. PyStr (fst kv)) d)"
| "iterate (PyStr s) = Inr (map (\<lambda>c. PyStr [c]) s)"
| "iterate _ = Inl TypeError"

fun str_add :: "string \<Rightarrow> pyval \<Rightarrow> py_error + string" where
  \<comment> \<open>\<^verbatim>\<open>s + x\<close> for a string \<open>s\<close>: \<open>x\<close> has to be a string\<close>
  "str_add s (PyStr t) = Inr (s @ t)"
| "str_add s _ = Inl TypeError"

fun str_add_all :: "string \<Rightarrow> pyval list \<Rightarrow> py_error + string" where
  \<comment> \<open>\<^verbatim>\<open>s + x1 + x2 + ...\<close>, from the left\<close>
  "str_add_all s [] = Inr s"
| "str_add_all s (x # xs) =
     (case str_add s x of Inl e \<Rightarrow> Inl e | Inr s' \<Rightarrow> str_add_all s' xs)"

definition print_place :: "pyval \<Rightarrow> world \<Rightarrow> (py_error + unit) \<times> world" where
  \<comment> \<open>the body of the loop over the places; the \<^verbatim>\<open>print\<close> stands in the \<^verbatim>\<open>else\<close> branch
      of the test of the city\<close>
  "print_place place w =
     (case subscript place ''name'' of
        Inl e \<Rightarrow> (Inl e, w)
      | Inr name0 \<Rightarrow>
     (case subscript place ''fields'' of
        Inl e \<Rightarrow> (Inl e, w)
      | Inr place_fields \<Rightarrow>
     (case subscript place_fields ''group_sic_code_name'' of
        Inl e \<Rightarrow> (Inl e, w)
      | Inr sic \<Rightarrow>
          let category0 = (if sic = PyStr [] then PyStr ''no category'' else sic) in
     (case subscript place_fields ''address'' of
        Inl e \<Rightarrow> (Inl e, w)
      | Inr addr \<Rightarrow>
          let address0 = (if addr = PyStr [] then PyStr ''no address'' else addr) in
     (case subscript place_fields ''city'' of
        Inl e \<Rightarrow> (Inl e, w)
      | Inr cty \<Rightarrow>
          if cty = PyStr [] then (Inr (), w)
          else
            (case str_add_all ''- ''
                    [name0, PyStr '' ('', category0, PyStr ''): '', address0, PyStr '', '', cty] of
               Inl e \<Rightarrow> (Inl e, w)
             | Inr s \<Rightarrow> (Inr (), print s w)))))))"

fun print_places :: "pyval list \<Rightarrow> world \<Rightarrow> (py_error + unit) \<times> world" where
  "print_places [] w = (Inr (), w)"
| "print_places (place # places) w =
     (case print_place place w of
        (Inl e, w') \<Rightarrow> (Inl e, w')
      | (Inr _, w') \<Rightarrow> print_places places w')"

subsection \<open>The two prompts\<close>

text \<open>
  The script is two nested \<^verbatim>\<open>while(True)\<close> loops, each reading one line per turn. The
  session is in \<open>StateSelect\<close> when the outer loop is about to read, in \<open>SiteList\<close> when the
  inner loop is about to read (with the \<^verbatim>\<open>site_dict\<close> it has built), \<open>Exited\<close> after
  \<^verbatim>\<open>exit()\<close>, and \<open>Crashed\<close> when an exception has left the script.
\<close>

datatype mode =
    StateSelect
  | SiteList "(string, NationalSite) dict"
  | Exited
  | Crashed py_error

definition state_prompt :: string where
  \<open>state_prompt = ''Enter a state name(e.g. Michigan, michigan) or "exit": ''\<close>

definition number_prompt :: string where
  \<open>number_prompt = ''Choose the number for detail search or "exit" or "back": ''\<close>

definition dashes :: "nat \<Rightarrow> string" where
  "dashes n = replicate n (CHR ''-'')"

fun number_sites ::
  "NationalSite list \<Rightarrow> nat \<Rightarrow> (string, NationalSite) dict \<Rightarrow> world
     \<Rightarrow> (string, NationalSite) dict \<times> world" where
  \<comment> \<open>the loop that prints the numbered list and fills \<^verbatim>\<open>site_dict\<close>\<close>
  "number_sites [] index site_dict w = (site_dict, w)"
| "number_sites (item # all_states) index site_dict w =
     number_sites all_states (index + 1) (dict_set site_dict (str_nat index) item)
       (print (''['' @ str_nat index @ ''] '' @ info item) w)"

definition ask :: "mode \<Rightarrow> world \<Rightarrow> world" where
  \<comment> \<open>what is written before a line is read\<close>
  "ask m w =
     (case m of
        StateSelect \<Rightarrow> w\<lparr>stdout := stdout w @ [Prompt state_prompt]\<rparr>
      | SiteList site_dict \<Rightarrow> (print [] w)\<lparr>stdout := stdout (print [] w) @ [Prompt number_prompt]\<rparr>
      | _ \<Rightarrow> w)"

definition choose_state :: "env \<Rightarrow> string \<Rightarrow> world \<Rightarrow> mode \<times> world" where
  \<comment> \<open>one turn of the outer loop, after the line \<open>state_input\<close> was read\<close>
  "choose_state E state_input w =
     (if lower state_input = ''exit'' then (Exited, w)
      else
        (case build_state_url_dict E w of
           (Inl e, w1) \<Rightarrow> (Crashed e, w1)
         | (Inr states_url, w1) \<Rightarrow>
             if dict_in (lower state_input) states_url then
               (case dict_get states_url (lower state_input) of
                  Inl e \<Rightarrow> (Crashed e, w1)
                | Inr state_url \<Rightarrow>
                    (case get_sites_for_state E state_url w1 of
                       (Inl e, w2) \<Rightarrow> (Crashed e, w2)
                     | (Inr all_states, w2) \<Rightarrow>
                         let count = length (lower state_input);
                             w3 = print (dashes (26 + count)) w2;
                             w4 = print (''List of national sites in '' @ lower state_input) w3;
                             w5 = print (dashes (26 + count)) w4
                         in (case number_sites all_states 1 [] w5 of
                               (site_dict, w6) \<Rightarrow> (SiteList site_dict, w6))))
             else (StateSelect, print ''[Error] Enter proper state name'' w1)))"

definition choose_site ::
  "env \<Rightarrow> (string, NationalSite) dict \<Rightarrow> string \<Rightarrow> world \<Rightarrow> mode \<times> world" where
  \<comment> \<open>one turn of the inner loop, after a line was read\<close>
  "choose_site E site_dict line w =
     (let number_input = lower line in
      if number_input = ''back'' then (StateSelect, w)
      else if number_input = ''exit'' then (Exited, w)
      else if dict_in number_input site_dict then
        (case dict_get site_dict number_input of
           Inl e \<Rightarrow> (Crashed e, w)
         | Inr site \<Rightarrow>
             (case get_nearby_places E site w of
                (Inl e, w1) \<Rightarrow> (Crashed e, w1)
              | (Inr nearby_places, w1) \<Rightarrow>
                  let count = length (name site);
                      w2 = print (dashes (12 + count)) w1;
                      w3 = print (''Places near '' @ name site) w2;
                      w4 = print (dashes (12 + count)) w3
                  in (case subscript nearby_places ''searchResults'' of
                        Inl e \<Rightarrow> (Crashed e, w4)
                      | Inr results \<Rightarrow>
                          (case iterate results of
                             Inl e \<Rightarrow> (Crashed e, w4)
                           | Inr places \<Rightarrow>
                               (case print_places places w4 of
                                  (Inl e, w5) \<Rightarrow> (Crashed e, w5)
                                | (Inr _, w5) \<Rightarrow> (SiteList site_dict, w5))))))
      else (SiteList site_dict, print ''[Error] Invalid input'' w))"

fun step :: "env \<Rightarrow> mode \<times> world \<Rightarrow> string \<Rightarrow> mode \<times> world" where
  "step E (StateSelect, w) line = choose_state E line (ask StateSelect w)"
| "step E (SiteList site_dict, w) line = choose_site E site_dict line (ask (SiteList site_dict) w)"
| "step E (Exited, w) line = (Exited, w)"
| "step E (Crashed e, w) line = (Crashed e, w)"

fun run :: "env \<Rightarrow> mode \<times> world \<Rightarrow> string list \<Rightarrow> mode \<times> world" where
  \<comment> \<open>the session after the lines typed so far, in order\<close>
  "run E c [] = c"
| "run E c (l # ls) = run E (step E c l) ls"

definition end_of_input :: "mode \<times> world \<Rightarrow> mode \<times> world" where
  \<comment> \<open>\<^verbatim>\<open>input\<close> raises \<^verbatim>\<open>EOFError\<close> when no line is left\<close>
  "end_of_input c =
     (case c of
        (Exited, w) \<Rightarrow> (Exited, w)
      | (Crashed e, w) \<Rightarrow> (Crashed e, w)
      | (m, w) \<Rightarrow> (Crashed EOFError, ask m w))"

definition main :: "env \<Rightarrow> string list \<Rightarrow> world \<Rightarrow> mode \<times> world" where
  "main E ls w =
     (case load_cache E w of
        Inl e \<Rightarrow> (Crashed e, w)
      | Inr cache \<Rightarrow> end_of_input (run E (StateSelect, w\<lparr>CACHE_DICT := cache\<rparr>) ls))"

section \<open>A small world to run the program in\<close>

text \<open>
  One page, \<^verbatim>\<open>https://x/a\<close>, answers \<^verbatim>\<open>BODY\<close> to the first request ever sent and fails
  afterwards; the places API answers with an empty result list. The JSON functions know
  the three documents that occur.
\<close>

definition example_cache :: pyval where
  "example_cache = PyDict [(''https://x/a'', PyStr ''BODY'')]"

definition example_dumps :: "pyval \<Rightarrow> string" where
  \<open>example_dumps v =
     (if v = example_cache then ''{"https://x/a": "BODY"}''
      else if v = PyDict [(''searchResults'', PyList [])] then ''{"searchResults": []}''
      else ''{}'')\<close>

definition example_loads :: "string \<Rightarrow> py_error + pyval" where
  \<open>example_loads s =
     (if s = ''{"https://x/a": "BODY"}'' then Inr example_cache
      else if s = ''{"searchResults": []}'' then Inr (PyDict [(''searchResults'', PyList [])])
      else if s = ''{}'' then Inr (PyDict [])
      else Inl JSONDecodeError)\<close>

definition example_get :: "request list \<Rightarrow> request \<Rightarrow> py_error + string" where
  \<open>example_get log r =
     (if url r = ''https://x/a'' \<and> log = [] then Inr ''BODY''
      else if url r = ''http://www.mapquestapi.com/search/v2/radius'' then Inr ''{"searchResults": []}''
      else Inl RequestException)\<close>

definition example_env :: env where
  "example_env =
     \<lparr>API_KEY = ''secret'',
      requests_get = example_get,
      json_loads = example_loads,
      json_dumps = example_dumps,
      soup_states = (\<lambda>t. None),
      soup_parks = (\<lambda>t. None),
      soup_site = (\<lambda>t. \<lparr>Hero_titleContainer = None, ParkFooter_contact = None\<rparr>)\<rparr>"

definition empty_world :: world where
  "empty_world = \<lparr>files = Map.empty, sent = [], stdout = [], CACHE_DICT = PyDict []\<rparr>"

definition isle_royale :: NationalSite where
  "isle_royale =
     \<lparr>category = ''National Park'', name = ''Isle Royale'', address = ''Houghton, MI'',
      zipcode = ''49931'', phone = ''(906) 482-0984''\<rparr>"

section \<open>Facts about dictionaries and strings\<close>

lemma dict_set_map_of: "map_of (dict_set d k v) = (map_of d)(k \<mapsto> v)"
  by (induction d) (auto simp: fun_eq_iff)

section \<open>The response cache: fetching\<close>

text \<open>
  Claim C1 (fetch memoization). For every URL \<open>u\<close> and every cache dict \<open>d\<close>: when \<open>u\<close> is a
  key of \<open>d\<close>, the fetch returns the stored value, leaves the cache as it is and sends no
  request. When \<open>u\<close> is not a key and the GET answers with the text \<open>t\<close>, the fetch sends that
  one request, stores \<open>t\<close> under \<open>u\<close>, writes the whole dict to the cache file and returns
  \<open>t\<close>; every later fetch of \<open>u\<close> with the dict it left returns \<open>t\<close> again and sends
  nothing, whatever the network would answer by then.
\<close>

theorem fetch_memoization:
  "(map_of d u = Some body \<longrightarrow>
      make_url_request_using_cache E u (PyDict d) w = (Inr body, PyDict d, print ''Using cache'' w)
      \<and> sent (print ''Using cache'' w) = sent w) \<and>
   (map_of d u = None \<and> requests_get E (sent w) (plain u) = Inr t \<longrightarrow>
      (\<exists>d' w'. make_url_request_using_cache E u (PyDict d) w = (Inr (PyStr t), PyDict d', w')
         \<and> map_of d' = (map_of d)(u \<mapsto> PyStr t)
         \<and> sent w' = sent w @ [plain u]
         \<and> files w' = (files w)(CACHE_FILE_NAME \<mapsto> Text (json_dumps E (PyDict d')))
         \<and> (\<forall>E' w2. \<exists>w3. make_url_request_using_cache E' u (PyDict d') w2
                              = (Inr (PyStr t), PyDict d', w3) \<and> sent w3 = sent w2)))"
  by (auto simp: make_url_request_using_cache_def dict_in_def dict_get_def print_def http_get_def
       save_cache_def write_file_def dict_set_map_of Let_def)

theorem fetch_memoization_witness:
  \<open>make_url_request_using_cache example_env ''https://x/a'' example_cache empty_world
     = (Inr (PyStr ''BODY''), example_cache, print ''Using cache'' empty_world)
   \<and> (\<exists>d' w'. make_url_request_using_cache example_env ''https://x/a'' (PyDict []) empty_world
                  = (Inr (PyStr ''BODY''), PyDict d', w')
         \<and> map_of d' = [''https://x/a'' \<mapsto> PyStr ''BODY'']
         \<and> sent w' = [plain ''https://x/a'']
         \<and> files w' = [CACHE_FILE_NAME \<mapsto> Text (example_dumps (PyDict d'))]
         \<and> (\<forall>E' w2. \<exists>w3. make_url_request_using_cache E' ''https://x/a'' (PyDict d') w2
                              = (Inr (PyStr ''BODY''), PyDict d', w3) \<and> sent w3 = sent w2))\<close>
proof -
  have hit: "map_of [(''https://x/a'', PyStr ''BODY'')] ''https://x/a'' = Some (PyStr ''BODY'')"
    by simp
  have miss: "map_of ([] :: (string \<times> pyval) list) ''https://x/a'' = None
     \<and> requests_get example_env (sent empty_world) (plain ''https://x/a'') = Inr ''BODY''"
    by (simp add: example_env_def example_get_def empty_world_def plain_def)
  show ?thesis
    using fetch_memoization [of "[(''https://x/a'', PyStr ''BODY'')]" "''https://x/a''"
            "PyStr ''BODY''" example_env empty_world]
          fetch_memoization [of "[]" "''https://x/a''" _ example_env empty_world "''BODY''"]
          hit miss
    by (simp add: example_cache_def example_env_def empty_world_def)
qed

text \<open>
  Claim C10 (frame of a cache hit). When the URL is a key of the cache dict, the fetch
  leaves the dict as it is, writes no file and sends no request.
\<close>

theorem cache_hit_frame:
  "dict_in u d \<Longrightarrow>
     (case make_url_request_using_cache E u (PyDict d) w of
        (r, cache', w') \<Rightarrow> cache' = PyDict d \<and> files w' = files w \<and> sent w' = sent w)"
  by (simp add: make_url_request_using_cache_def print_def)

theorem cache_hit_frame_witness:
  "dict_in ''https://x/a'' [(''https://x/a'', PyStr ''BODY'')] \<and>
     (case make_url_request_using_cache example_env ''https://x/a''
             (PyDict [(''https://x/a'', PyStr ''BODY'')]) empty_world of
        (r, cache', w') \<Rightarrow> cache' = PyDict [(''https://x/a'', PyStr ''BODY'')]
           \<and> files w' = files empty_world \<and> sent w' = sent empty_world)"
proof -
  have h: "dict_in ''https://x/a'' [(''https://x/a'', PyStr ''BODY'')]"
    by (simp add: dict_in_def)
  show ?thesis
    using h cache_hit_frame [OF h, where E = example_env and w = empty_world] by simp
qed

section \<open>The response cache: loading and saving\<close>

text \<open>
  Claim C7 (loading never fails). \<^verbatim>\<open>load_cache\<close> always returns a value. It returns the
  empty dict when the cache file is absent, when it cannot be read, and when its text is
  not JSON; when the text is JSON it returns what the text decodes to.
\<close>

theorem load_cache_robust:
  "(\<exists>v. load_cache E w = Inr v) \<and>
   (files w CACHE_FILE_NAME = None \<longrightarrow> load_cache E w = Inr (PyDict [])) \<and>
   (files w CACHE_FILE_NAME = Some Undecodable \<longrightarrow> load_cache E w = Inr (PyDict [])) \<and>
   (files w CACHE_FILE_NAME = Some (Text s) \<and> json_loads E s = Inl e
      \<longrightarrow> load_cache E w = Inr (PyDict [])) \<and>
   (files w CACHE_FILE_NAME = Some (Text s) \<and> json_loads E s = Inr v
      \<longrightarrow> load_cache E w = Inr v)"
  by (auto simp: load_cache_def load_cache_try_def read_file_def
           split: sum.splits option.splits disk_file.splits)

theorem load_cache_robust_witness:
  \<open>load_cache example_env empty_world = Inr (PyDict [])
   \<and> load_cache example_env (empty_world\<lparr>files := [CACHE_FILE_NAME \<mapsto> Undecodable]\<rparr>)
       = Inr (PyDict [])
   \<and> load_cache example_env (empty_world\<lparr>files := [CACHE_FILE_NAME \<mapsto> Text ''{"https://x/a": '']\<rparr>)
       = Inr (PyDict [])
   \<and> load_cache example_env
         (empty_world\<lparr>files := [CACHE_FILE_NAME \<mapsto> Text ''{"https://x/a": "BODY"}'']\<rparr>)
       = Inr (PyDict [(''https://x/a'', PyStr ''BODY'')])\<close>
proof -
  have absent: "files empty_world CACHE_FILE_NAME = None"
    by (simp add: empty_world_def)
  have bad: \<open>json_loads example_env ''{"https://x/a": '' = Inl JSONDecodeError\<close>
    by (simp add: example_env_def example_loads_def)
  have good: \<open>json_loads example_env ''{"https://x/a": "BODY"}''
                = Inr (PyDict [(''https://x/a'', PyStr ''BODY'')])\<close>
    by (simp add: example_env_def example_loads_def example_cache_def)
  show ?thesis
    using absent bad good
      load_cache_robust [where E = example_env and w = empty_world]
      load_cache_robust [where E = example_env
        and w = "empty_world\<lparr>files := [CACHE_FILE_NAME \<mapsto> Undecodable]\<rparr>"]
      load_cache_robust [where E = example_env and e = JSONDecodeError
        and s = \<open>''{"https://x/a": ''\<close>
        and w = \<open>empty_world\<lparr>files := [CACHE_FILE_NAME \<mapsto> Text ''{"https://x/a": '']\<rparr>\<close>]
      load_cache_robust [where E = example_env
        and v = "PyDict [(''https://x/a'', PyStr ''BODY'')]"
        and s = \<open>''{"https://x/a": "BODY"}''\<close>
        and w = \<open>empty_world\<lparr>files := [CACHE_FILE_NAME \<mapsto> Text ''{"https://x/a": "BODY"}'']\<rparr>\<close>]
    by simp
qed

text \<open>
  Claim C8 (round trip). For a cache \<open>c\<close> that the JSON library decodes back from its own
  encoding, loading after saving \<open>c\<close> gives \<open>c\<close>; and saving what was loaded leaves what
  loading gives unchanged. The property of the JSON library is a hypothesis: the library
  is not part of the program.
\<close>

theorem cache_round_trip:
  "(json_loads E (json_dumps E c) = Inr c \<longrightarrow> load_cache E (save_cache E c w) = Inr c) \<and>
   (load_cache E w = Inr c0 \<and> json_loads E (json_dumps E c0) = Inr c0
      \<longrightarrow> load_cache E (save_cache E c0 w) = load_cache E w)"
  by (simp add: load_cache_def load_cache_try_def read_file_def save_cache_def write_file_def)


theorem cache_round_trip_witness:
  \<open>load_cache example_env (save_cache example_env example_cache empty_world) = Inr example_cache
   \<and> load_cache example_env
        (save_cache example_env example_cache
           (empty_world\<lparr>files := [CACHE_FILE_NAME \<mapsto> Text ''{"https://x/a": "BODY"}'']\<rparr>))
      = load_cache example_env
          (empty_world\<lparr>files := [CACHE_FILE_NAME \<mapsto> Text ''{"https://x/a": "BODY"}'']\<rparr>)\<close>
proof -
  have codec: "json_loads example_env (json_dumps example_env example_cache) = Inr example_cache"
    by (simp add: example_env_def example_loads_def example_dumps_def)
  have loaded: \<open>load_cache example_env
          (empty_world\<lparr>files := [CACHE_FILE_NAME \<mapsto> Text ''{"https://x/a": "BODY"}'']\<rparr>)
        = Inr example_cache\<close>
    by (simp add: load_cache_def load_cache_try_def read_file_def example_env_def
          example_loads_def)
  show ?thesis
    using codec loaded
      cache_round_trip [where E = example_env and c = example_cache and w = empty_world]
      cache_round_trip [where E = example_env and ?c0.0 = example_cache
        and w = \<open>empty_world\<lparr>files := [CACHE_FILE_NAME \<mapsto> Text ''{"https://x/a": "BODY"}'']\<rparr>\<close>]
    by simp
qed

section \<open>Which fetches use the cache\<close>

lemma fetch_sent:
  "\<exists>rs. sent (snd (snd (make_url_request_using_cache E u c w))) = sent w @ rs"
  by (auto simp: make_url_request_using_cache_def print_def http_get_def save_cache_def
        write_file_def Let_def split: pyval.splits sum.splits)

lemma get_site_instance_sent: "\<exists>rs. sent (snd (get_site_instance E u w)) = sent w @ rs"
proof -
  obtain r c w1 where f: "make_url_request_using_cache E u (CACHE_DICT w) w = (r, c, w1)"
    by (cases "make_url_request_using_cache E u (CACHE_DICT w) w") auto
  from fetch_sent [of E u "CACHE_DICT w" w] f obtain rs where "sent w1 = sent w @ rs"
    by auto
  with f show ?thesis
    by (auto simp: get_site_instance_def Let_def split: sum.splits pyval.splits)
qed

lemma parks_loop_sent: "\<exists>rs. sent (snd (parks_loop E ps acc w)) = sent w @ rs"
proof (induction ps arbitrary: acc w)
  case Nil
  show ?case by simp
next
  case (Cons p ps)
  show ?case
  proof (cases p)
    case None
    then show ?thesis by simp
  next
    case (Some a)
    show ?thesis
    proof (cases "a_href a")
      case None
      with Some show ?thesis by simp
    next
      case (Some h)
      obtain r w1 where g: "get_site_instance E (''https://www.nps.gov'' @ h) w = (r, w1)"
        by (cases "get_site_instance E (''https://www.nps.gov'' @ h) w") auto
      from get_site_instance_sent [of E "''https://www.nps.gov'' @ h" w] g
      obtain rs where s1: "sent w1 = sent w @ rs" by auto
      show ?thesis
      proof (cases r)
        case (Inl e)
        with \<open>p = Some a\<close> Some g s1 show ?thesis by simp
      next
        case (Inr s)
        from Cons.IH [of "acc @ [s]" w1] obtain rs' where
          "sent (snd (parks_loop E ps (acc @ [s]) w1)) = sent w1 @ rs'" by auto
        with \<open>p = Some a\<close> Some g s1 Inr show ?thesis by simp
      qed
    qed
  qed
qed

text \<open>
  Claim C2 says that every fetch goes through the cache. The program does otherwise: with
  the index page already in the cache, the cache-backed fetch of it answers from the cache
  and sends nothing, while \<^verbatim>\<open>build_state_url_dict\<close> sends the request all the same.
\<close>

theorem index_fetch_bypasses_cache:
  "fst (make_url_request_using_cache example_env ''https://www.nps.gov''
          (PyDict [(''https://www.nps.gov'', PyStr ''page'')])
          (empty_world\<lparr>CACHE_DICT := PyDict [(''https://www.nps.gov'', PyStr ''page'')]\<rparr>))
     = Inr (PyStr ''page'')
   \<and> sent (snd (snd (make_url_request_using_cache example_env ''https://www.nps.gov''
          (PyDict [(''https://www.nps.gov'', PyStr ''page'')])
          (empty_world\<lparr>CACHE_DICT := PyDict [(''https://www.nps.gov'', PyStr ''page'')]\<rparr>)))) = []
   \<and> sent (snd (build_state_url_dict example_env
          (empty_world\<lparr>CACHE_DICT := PyDict [(''https://www.nps.gov'', PyStr ''page'')]\<rparr>)))
     = [plain ''https://www.nps.gov'']"
  by (simp add: make_url_request_using_cache_def dict_in_def dict_get_def print_def
        build_state_url_dict_def http_get_def empty_world_def example_env_def example_get_def
        plain_def Let_def)

text \<open>
  Claim C2 as amended. Only the pages of single sites are fetched through the cache: when
  \<^verbatim>\<open>CACHE_DICT\<close> is a dict, \<^verbatim>\<open>get_site_instance\<close> sends no request for a URL that is a key
  of it and one request for a URL that is not; when \<^verbatim>\<open>CACHE_DICT\<close> is not a dict it raises
  \<^verbatim>\<open>AttributeError\<close> and does nothing else. \<^verbatim>\<open>build_state_url_dict\<close> always sends one
  request for the index page, \<^verbatim>\<open>get_sites_for_state\<close> always sends a request for the state
  page first, and \<^verbatim>\<open>get_nearby_places\<close> always sends one request to the places API,
  whatever the cache holds. The index fetch and the places call do not change the cache or
  the files, and they do not read them: with any other cache and any other files they
  return the same result and act in the same way.
\<close>

theorem only_site_pages_cached:
  "sent (snd (build_state_url_dict E w)) = sent w @ [plain ''https://www.nps.gov'']
   \<and> CACHE_DICT (snd (build_state_url_dict E w)) = CACHE_DICT w
   \<and> files (snd (build_state_url_dict E w)) = files w
   \<and> (\<exists>rs. sent (snd (get_sites_for_state E state_url w)) = sent w @ plain state_url # rs)
   \<and> sent (snd (get_nearby_places E site w)) = sent w @ [nearby_request E site]
   \<and> CACHE_DICT (snd (get_nearby_places E site w)) = CACHE_DICT w
   \<and> files (snd (get_nearby_places E site w)) = files w
   \<and> (CACHE_DICT w = PyDict d \<and> dict_in u d
        \<longrightarrow> sent (snd (get_site_instance E u w)) = sent w)
   \<and> (CACHE_DICT w = PyDict d \<and> \<not> dict_in u d
        \<longrightarrow> sent (snd (get_site_instance E u w)) = sent w @ [plain u])
   \<and> ((\<forall>d'. CACHE_DICT w \<noteq> PyDict d')
        \<longrightarrow> get_site_instance E u w = (Inl AttributeError, w))
   \<and> build_state_url_dict E (w\<lparr>files := f, CACHE_DICT := c\<rparr>)
       = (fst (build_state_url_dict E w),
          (snd (build_state_url_dict E w))\<lparr>files := f, CACHE_DICT := c\<rparr>)
   \<and> get_nearby_places E site (w\<lparr>files := f, CACHE_DICT := c\<rparr>)
       = (fst (get_nearby_places E site w),
          (snd (get_nearby_places E site w))\<lparr>files := f, CACHE_DICT := c\<rparr>)"
proof -
  have index: "sent (snd (build_state_url_dict E w)) = sent w @ [plain ''https://www.nps.gov'']
     \<and> CACHE_DICT (snd (build_state_url_dict E w)) = CACHE_DICT w
     \<and> files (snd (build_state_url_dict E w)) = files w"
    by (simp add: build_state_url_dict_def http_get_def Let_def split: sum.splits option.splits)
  have listing: "\<exists>rs. sent (snd (get_sites_for_state E state_url w)) = sent w @ plain state_url # rs"
  proof (cases "requests_get E (sent w) (plain state_url)")
    case (Inl e)
    then show ?thesis by (simp add: get_sites_for_state_def http_get_def)
  next
    case (Inr t)
    show ?thesis
    proof (cases "soup_parks E (strip t)")
      case None
      with Inr show ?thesis by (simp add: get_sites_for_state_def http_get_def)
    next
      case (Some ps)
      from parks_loop_sent [of E ps "[]" "w\<lparr>sent := sent w @ [plain state_url]\<rparr>"]
      obtain rs where "sent (snd (parks_loop E ps [] (w\<lparr>sent := sent w @ [plain state_url]\<rparr>)))
                         = (sent w @ [plain state_url]) @ rs" by auto
      with Inr Some show ?thesis by (simp add: get_sites_for_state_def http_get_def)
    qed
  qed
  have nearby: "sent (snd (get_nearby_places E site w)) = sent w @ [nearby_request E site]
     \<and> CACHE_DICT (snd (get_nearby_places E site w)) = CACHE_DICT w
     \<and> files (snd (get_nearby_places E site w)) = files w"
    by (simp add: get_nearby_places_def http_get_def split: sum.splits)
  have hit: "CACHE_DICT w = PyDict d \<and> dict_in u d
        \<longrightarrow> sent (snd (get_site_instance E u w)) = sent w"
    by (auto simp: get_site_instance_def make_url_request_using_cache_def print_def Let_def
          split: sum.splits pyval.splits)
  have miss: "CACHE_DICT w = PyDict d \<and> \<not> dict_in u d
        \<longrightarrow> sent (snd (get_site_instance E u w)) = sent w @ [plain u]"
    by (auto simp: get_site_instance_def make_url_request_using_cache_def print_def Let_def
          http_get_def save_cache_def write_file_def split: sum.splits pyval.splits)
  have no_dict: "(\<forall>d'. CACHE_DICT w \<noteq> PyDict d')
        \<longrightarrow> get_site_instance E u w = (Inl AttributeError, w)"
    by (cases "CACHE_DICT w")
       (simp_all add: get_site_instance_def make_url_request_using_cache_def)
  have index_blind: "build_state_url_dict E (w\<lparr>files := f, CACHE_DICT := c\<rparr>)
       = (fst (build_state_url_dict E w),
          (snd (build_state_url_dict E w))\<lparr>files := f, CACHE_DICT := c\<rparr>)"
    by (simp add: build_state_url_dict_def http_get_def Let_def split: sum.splits option.splits)
  have nearby_blind: "get_nearby_places E site (w\<lparr>files := f, CACHE_DICT := c\<rparr>)
       = (fst (get_nearby_places E site w),
          (snd (get_nearby_places E site w))\<lparr>files := f, CACHE_DICT := c\<rparr>)"
    by (simp add: get_nearby_places_def http_get_def nearby_request_def split: sum.splits)
  from index listing nearby hit miss no_dict index_blind nearby_blind show ?thesis by blast
qed

theorem only_site_pages_cached_witness:
  "sent (snd (get_site_instance example_env ''https://x/a''
                (empty_world\<lparr>CACHE_DICT := example_cache\<rparr>))) = []
   \<and> sent (snd (get_site_instance example_env ''https://x/a'' empty_world)) = [plain ''https://x/a'']
   \<and> get_site_instance example_env ''https://x/a'' (empty_world\<lparr>CACHE_DICT := PyNone\<rparr>)
       = (Inl AttributeError, empty_world\<lparr>CACHE_DICT := PyNone\<rparr>)"
proof -
  have no_dict: "\<forall>d'. CACHE_DICT (empty_world\<lparr>CACHE_DICT := PyNone\<rparr>) \<noteq> PyDict d'"
    by simp
  have cached: "CACHE_DICT (empty_world\<lparr>CACHE_DICT := example_cache\<rparr>)
                  = PyDict [(''https://x/a'', PyStr ''BODY'')]
                \<and> dict_in ''https://x/a'' [(''https://x/a'', PyStr ''BODY'')]"
    by (simp add: example_cache_def dict_in_def)
  have fresh: "CACHE_DICT empty_world = PyDict []
                 \<and> \<not> dict_in ''https://x/a'' ([] :: (string \<times> pyval) list)"
    by (simp add: empty_world_def dict_in_def)
  have first: "sent (snd (get_site_instance example_env ''https://x/a''
                 (empty_world\<lparr>CACHE_DICT := example_cache\<rparr>)))
               = sent (empty_world\<lparr>CACHE_DICT := example_cache\<rparr>)"
    using cached
      only_site_pages_cached [where E = example_env and u = "''https://x/a''"
        and d = "[(''https://x/a'', PyStr ''BODY'')]"
        and w = "empty_world\<lparr>CACHE_DICT := example_cache\<rparr>"
        and f = Map.empty and c = PyNone and site = isle_royale and state_url = "[]"]
    by blast
  have second: "sent (snd (get_site_instance example_env ''https://x/a'' empty_world))
                = sent empty_world @ [plain ''https://x/a'']"
    using fresh
      only_site_pages_cached [where E = example_env and u = "''https://x/a''"
        and d = "[]" and w = empty_world
        and f = Map.empty and c = PyNone and site = isle_royale and state_url = "[]"]
    by blast
  have third: "get_site_instance example_env ''https://x/a'' (empty_world\<lparr>CACHE_DICT := PyNone\<rparr>)
       = (Inl AttributeError, empty_world\<lparr>CACHE_DICT := PyNone\<rparr>)"
    using no_dict
      only_site_pages_cached [where E = example_env and u = "''https://x/a''"
        and d = "[]" and w = "empty_world\<lparr>CACHE_DICT := PyNone\<rparr>"
        and f = Map.empty and c = PyNone and site = isle_royale and state_url = "[]"]
    by blast
  from first second third show ?thesis
    by (simp add: empty_world_def)
qed

section \<open>The index of the states\<close>

text \<open>
  Claim C3 (the first of two links with the same state name is kept). The loop tests the
  name as it stands on the page against the keys, which are lower-cased: for a name with
  a capital letter the test never finds the key, and the later link replaces the earlier.
  Two links named \<^verbatim>\<open>Michigan\<close> leave the URL of the second.
\<close>

theorem state_index_last_wins:
  "state_dict_loop ''https://www.nps.gov''
     [Some \<lparr>a_text = ''Michigan'', a_href = Some ''/state/mi/index.htm''\<rparr>,
      Some \<lparr>a_text = ''Michigan'', a_href = Some ''/state/mn/index.htm''\<rparr>] []
   = Inr [(''michigan'', ''https://www.nps.gov/state/mn/index.htm'')]"
  by code_simp


section \<open>The fields of a site\<close>

lemma get_site_instance_from_soup:
  "fst (get_site_instance E u w) = Inr site \<Longrightarrow> \<exists>t. site_from_soup (soup_site E t) = Inr site"
  by (cases "make_url_request_using_cache E u (CACHE_DICT w) w")
     (auto simp: get_site_instance_def Let_def split: sum.splits pyval.splits)

lemma dropWhile_all: "(\<forall>x\<in>set (dropWhile P xs). P x) \<longleftrightarrow> (\<forall>x\<in>set xs. P x)"
  by (induction xs) auto

lemma strip_empty_iff: "strip t = [] \<longleftrightarrow> (\<forall>c\<in>set t. isspace c)"
  by (simp add: strip_def dropWhile_eq_Nil_conv dropWhile_all)

text \<open>
  Claim C4 says that an empty city or state gives an empty address. The texts of the city
  and the state are strings, never \<^verbatim>\<open>None\<close>, so the test of the program always holds: a
  page with an empty city and the state \<^verbatim>\<open>MI\<close> gives the address \<^verbatim>\<open>, MI\<close>.
\<close>

theorem empty_city_keeps_comma:
  "site_from_soup
     \<lparr>Hero_titleContainer = Some \<lparr>Hero_title = Some ''Isle Royale'',
         Hero_designation = Some ''National Park''\<rparr>,
      ParkFooter_contact = Some \<lparr>addressLocality = Some [], addressRegion = Some ''MI'',
         postalCode = Some ''49931'', telephone = Some ''(906) 482-0984''\<rparr>\<rparr>
    = Inr \<lparr>category = ''National Park'', name = ''Isle Royale'', address = '', MI'',
           zipcode = ''49931'', phone = ''(906) 482-0984''\<rparr>"
  by (simp add: site_from_soup_def text_strip_def strip_def isspace_def)

text \<open>
  Claim C4 as amended. \<^verbatim>\<open>get_site_instance\<close> builds its site from the parsed page by
  \<open>site_from_soup\<close>. Every site built comes from a page that has the category, city and
  state elements; its category is \<^verbatim>\<open>no category\<close> when the
  stripped category text is empty and that text otherwise, so it is never empty; its
  address is the stripped city text, a comma and a blank, and the stripped state text,
  also when one of the two texts is empty.
\<close>

theorem site_defaults:
  "site_from_soup soup = Inr site \<Longrightarrow>
     \<exists>header footer c city state.
       Hero_titleContainer soup = Some header \<and> Hero_designation header = Some c
       \<and> ParkFooter_contact soup = Some footer
       \<and> addressLocality footer = Some city \<and> addressRegion footer = Some state
       \<and> category site = (if strip c = [] then ''no category'' else strip c)
       \<and> category site \<noteq> []
       \<and> address site = strip city @ '', '' @ strip state"
proof -
  assume produced: "site_from_soup soup = Inr site"
  then obtain header footer where
    h: "Hero_titleContainer soup = Some header" and f: "ParkFooter_contact soup = Some footer"
    by (auto simp: site_from_soup_def text_strip_def split: option.splits sum.splits)
  with produced obtain c city state where
    c: "Hero_designation header = Some c" and
    ci: "addressLocality footer = Some city" and st: "addressRegion footer = Some state"
    by (auto simp: site_from_soup_def text_strip_def split: option.splits sum.splits)
  from produced h f c ci st have
    "category site = (if strip c = [] then ''no category'' else strip c)
     \<and> category site \<noteq> []
     \<and> address site = strip city @ '', '' @ strip state"
    by (auto simp: site_from_soup_def text_strip_def Let_def split: option.splits sum.splits)
  with h f c ci st show ?thesis by blast
qed

theorem site_defaults_witness:
  "site_from_soup
     \<lparr>Hero_titleContainer = Some \<lparr>Hero_title = Some ''Isle Royale'', Hero_designation = Some []\<rparr>,
      ParkFooter_contact = Some \<lparr>addressLocality = Some ''Houghton'', addressRegion = Some ''MI'',
         postalCode = Some ''49931'', telephone = Some ''(906) 482-0984''\<rparr>\<rparr>
    = Inr \<lparr>category = ''no category'', name = ''Isle Royale'', address = ''Houghton, MI'',
           zipcode = ''49931'', phone = ''(906) 482-0984''\<rparr>
   \<and> (\<exists>header footer c city state.
         Some \<lparr>Hero_title = Some ''Isle Royale'', Hero_designation = Some []\<rparr> = Some header
         \<and> Hero_designation header = Some c
         \<and> Some \<lparr>addressLocality = Some ''Houghton'', addressRegion = Some ''MI'',
              postalCode = Some ''49931'', telephone = Some ''(906) 482-0984''\<rparr> = Some footer
         \<and> addressLocality footer = Some city \<and> addressRegion footer = Some state
         \<and> ''no category'' = (if strip c = [] then ''no category'' else strip c)
         \<and> ''Houghton, MI'' = strip city @ '', '' @ strip state)"
proof -
  have run: "site_from_soup
     \<lparr>Hero_titleContainer = Some \<lparr>Hero_title = Some ''Isle Royale'', Hero_designation = Some []\<rparr>,
      ParkFooter_contact = Some \<lparr>addressLocality = Some ''Houghton'', addressRegion = Some ''MI'',
         postalCode = Some ''49931'', telephone = Some ''(906) 482-0984''\<rparr>\<rparr>
    = Inr \<lparr>category = ''no category'', name = ''Isle Royale'', address = ''Houghton, MI'',
           zipcode = ''49931'', phone = ''(906) 482-0984''\<rparr>"
    by (simp add: site_from_soup_def text_strip_def strip_def isspace_def)
  show ?thesis
    using run site_defaults [OF run] by simp
qed

text \<open>
  Claim C9 says that the name of a site is never empty. Nothing checks the name: a title
  element that holds only a blank gives a site with the empty name.
\<close>

theorem empty_title_gives_empty_name:
  "site_from_soup
     \<lparr>Hero_titleContainer = Some \<lparr>Hero_title = Some '' '',
         Hero_designation = Some ''National Park''\<rparr>,
      ParkFooter_contact = Some \<lparr>addressLocality = Some ''Houghton'', addressRegion = Some ''MI'',
         postalCode = Some ''49931'', telephone = Some ''(906) 482-0984''\<rparr>\<rparr>
    = Inr \<lparr>category = ''National Park'', name = [], address = ''Houghton, MI'',
           zipcode = ''49931'', phone = ''(906) 482-0984''\<rparr>"
  by (simp add: site_from_soup_def text_strip_def strip_def isspace_def)

text \<open>
  Claim C9 as amended. The name of a site that is built is the text of the title element
  without the white space around it; it is non-empty exactly when that text has a
  character that is not white space. A page without the title block, or without the title
  element in it, builds no site: \<^verbatim>\<open>AttributeError\<close> is raised.
\<close>

theorem site_name:
  "(site_from_soup soup = Inr site \<longrightarrow>
      (\<exists>header t. Hero_titleContainer soup = Some header \<and> Hero_title header = Some t
         \<and> name site = strip t
         \<and> (name site \<noteq> [] \<longleftrightarrow> (\<exists>c\<in>set t. \<not> isspace c))))
   \<and> (Hero_titleContainer soup = None \<longrightarrow> site_from_soup soup = Inl AttributeError)
   \<and> (Hero_titleContainer soup = Some header' \<and> Hero_title header' = None
        \<longrightarrow> site_from_soup soup = Inl AttributeError)"
  by (auto simp: site_from_soup_def text_strip_def Let_def strip_empty_iff
        split: option.splits sum.splits)

theorem site_name_witness:
  "name \<lparr>category = ''no category'', name = ''Isle Royale'', address = ''Houghton, MI'',
           zipcode = ''49931'', phone = ''(906) 482-0984''\<rparr> \<noteq> []
   \<and> site_from_soup \<lparr>Hero_titleContainer = None, ParkFooter_contact = None\<rparr>
       = Inl AttributeError
   \<and> site_from_soup
        \<lparr>Hero_titleContainer = Some \<lparr>Hero_title = None, Hero_designation = Some ''Park''\<rparr>,
         ParkFooter_contact = None\<rparr> = Inl AttributeError"
proof -
  have produced: "site_from_soup
     \<lparr>Hero_titleContainer = Some \<lparr>Hero_title = Some ''Isle Royale'', Hero_designation = Some []\<rparr>,
      ParkFooter_contact = Some \<lparr>addressLocality = Some ''Houghton'', addressRegion = Some ''MI'',
         postalCode = Some ''49931'', telephone = Some ''(906) 482-0984''\<rparr>\<rparr>
    = Inr \<lparr>category = ''no category'', name = ''Isle Royale'', address = ''Houghton, MI'',
           zipcode = ''49931'', phone = ''(906) 482-0984''\<rparr>"
    by (simp add: site_from_soup_def text_strip_def strip_def isspace_def)
  have visible: "\<exists>c\<in>set ''Isle Royale''. \<not> isspace c"
    by (simp add: isspace_def)
  show ?thesis
    using produced visible
      site_name [where soup = "\<lparr>Hero_titleContainer = Some \<lparr>Hero_title = Some ''Isle Royale'',
             Hero_designation = Some []\<rparr>,
           ParkFooter_contact = Some \<lparr>addressLocality = Some ''Houghton'',
             addressRegion = Some ''MI'', postalCode = Some ''49931'',
             telephone = Some ''(906) 482-0984''\<rparr>\<rparr>"
         and site = "\<lparr>category = ''no category'', name = ''Isle Royale'',
           address = ''Houghton, MI'', zipcode = ''49931'', phone = ''(906) 482-0984''\<rparr>"]
      site_name [where soup = "\<lparr>Hero_titleContainer = None, ParkFooter_contact = None\<rparr>"]
      site_name [where soup = "\<lparr>Hero_titleContainer
             = Some \<lparr>Hero_title = None, Hero_designation = Some ''Park''\<rparr>,
           ParkFooter_contact = None\<rparr>"
         and header' = "\<lparr>Hero_title = None, Hero_designation = Some ''Park''\<rparr>"]
    by simp
qed

section \<open>The session\<close>

text \<open>
  Claim C5 (one line per place, with defaults for empty fields). The \<^verbatim>\<open>print\<close> of the
  loop stands inside the \<^verbatim>\<open>else\<close> branch of the test of the city, so a place with an empty
  city prints nothing and \<^verbatim>\<open>no city\<close> is never shown; a place with a city is printed,
  with the defaults of the other two fields.
\<close>

theorem place_without_city_not_printed:
  "print_places
     [PyDict [(''name'', PyStr ''Keweenaw Coffee''),
              (''fields'', PyDict [(''group_sic_code_name'', PyStr ''Eating Places''),
                                   (''address'', PyStr ''326 Shelden Ave''),
                                   (''city'', PyStr [])])]] empty_world
     = (Inr (), empty_world)
   \<and> print_places
     [PyDict [(''name'', PyStr ''Keweenaw Coffee''),
              (''fields'', PyDict [(''group_sic_code_name'', PyStr []),
                                   (''address'', PyStr []),
                                   (''city'', PyStr ''Houghton'')])]] empty_world
     = (Inr (), empty_world\<lparr>stdout :=
          [Line ''- Keweenaw Coffee (no category): no address, Houghton'']\<rparr>)"
  by (simp add: print_place_def dict_get_def print_def empty_world_def)


lemma run_append: "run E c (xs @ ys) = run E (run E c xs) ys"
  by (induction xs arbitrary: c) auto

lemma run_Exited: "run E (Exited, w) ls = (Exited, w)"
  by (induction ls) auto

lemma ask_frame:
  "sent (ask m w) = sent w \<and> files (ask m w) = files w \<and> CACHE_DICT (ask m w) = CACHE_DICT w"
  by (cases m) (simp_all add: ask_def print_def)

text \<open>
  Claim C6 (navigation safety). At the prompt of the site list, a line that is \<^verbatim>\<open>back\<close>
  in any mix of cases brings the session to the prompt of the states, with no site list
  kept, from every site list and every world, so also after any lines typed before that
  left the session at a site list. A line that is \<^verbatim>\<open>exit\<close> ends the session at both
  prompts; after that no line is read and nothing more is done. Asking for a line only
  writes to the terminal: it sends nothing and changes neither the files nor the cache.
\<close>

theorem navigation_safety:
  "(lower line = ''back'' \<longrightarrow>
      step E (SiteList site_dict, w) line = (StateSelect, ask (SiteList site_dict) w)
      \<and> (run E (SiteList site_dict, w) ls = (SiteList site_dict', w')
           \<longrightarrow> run E (SiteList site_dict, w) (ls @ [line])
                 = (StateSelect, ask (SiteList site_dict') w')))
   \<and> (lower line = ''exit'' \<longrightarrow>
        step E (StateSelect, w) line = (Exited, ask StateSelect w)
        \<and> step E (SiteList site_dict, w) line = (Exited, ask (SiteList site_dict) w))
   \<and> run E (Exited, w) ls = (Exited, w)
   \<and> end_of_input (Exited, w) = (Exited, w)
   \<and> sent (ask m w) = sent w \<and> files (ask m w) = files w
   \<and> CACHE_DICT (ask m w) = CACHE_DICT w"
proof -
  have goes_back: "lower line = ''back'' \<longrightarrow>
      step E (SiteList site_dict, w) line = (StateSelect, ask (SiteList site_dict) w)
      \<and> (run E (SiteList site_dict, w) ls = (SiteList site_dict', w')
           \<longrightarrow> run E (SiteList site_dict, w) (ls @ [line])
                 = (StateSelect, ask (SiteList site_dict') w'))"
    by (simp add: choose_site_def run_append)
  have leave: "lower line = ''exit'' \<longrightarrow>
        step E (StateSelect, w) line = (Exited, ask StateSelect w)
        \<and> step E (SiteList site_dict, w) line = (Exited, ask (SiteList site_dict) w)"
    by (simp add: choose_site_def choose_state_def)
  have stop: "end_of_input (Exited, w) = (Exited, w)"
    by (simp add: end_of_input_def)
  from goes_back leave stop run_Exited [of E w ls] ask_frame [of m w] show ?thesis
    by blast
qed

theorem navigation_safety_witness:
  "fst (run example_env (SiteList [(''1'', isle_royale)], empty_world) [''1'', ''1'', ''Back''])
     = StateSelect
   \<and> fst (step example_env (StateSelect, empty_world) ''EXIT'') = Exited
   \<and> fst (step example_env (SiteList [(''1'', isle_royale)], empty_world) ''Exit'') = Exited"
proof -
  have b: "lower ''Back'' = ''back''" by code_simp
  have e1: "lower ''EXIT'' = ''exit''" by code_simp
  have e2: "lower ''Exit'' = ''exit''" by code_simp
  have one: "lower ''1'' = ''1''" by code_simp
  have "\<exists>w'. step example_env (SiteList [(''1'', isle_royale)], w) ''1''
                = (SiteList [(''1'', isle_royale)], w')" for w
    by (simp add: choose_site_def one dict_in_def dict_get_def get_nearby_places_def
          http_get_def example_env_def example_get_def example_loads_def nearby_request_def
          Let_def)
  then have "\<exists>w'. run example_env (SiteList [(''1'', isle_royale)], empty_world) [''1'', ''1'']
                = (SiteList [(''1'', isle_royale)], w')"
    by (metis run.simps)
  then obtain w' where drills:
    "run example_env (SiteList [(''1'', isle_royale)], empty_world) [''1'', ''1'']
       = (SiteList [(''1'', isle_royale)], w')" ..
  show ?thesis
    using b e1 e2 drills
      navigation_safety [where line = "''Back''" and E = example_env
        and site_dict = "[(''1'', isle_royale)]" and w = empty_world
        and ls = "[''1'', ''1'']" and site_dict' = "[(''1'', isle_royale)]" and w' = w']
      navigation_safety [where line = "''EXIT''" and E = example_env and w = empty_world]
      navigation_safety [where line = "''Exit''" and E = example_env and w = empty_world
        and site_dict = "[(''1'', isle_royale)]"]
    by simp
qed

end
